theory Spec2Isabelle
  imports Main
begin

section \<open>Values, exceptions and requests of main.py\<close>

text \<open>
  The endpoints of \<^verbatim>\<open>main.py\<close> are modelled as functions that return a sum:
  \<open>Inl\<close> is the exception that leaves the handler, \<open>Inr\<close> the response. The collaborators that \<^verbatim>\<open>main.py\<close> imports
  (\<^verbatim>\<open>SimpleXPathGenerator\<close>, \<^verbatim>\<open>XPathAgent\<close>, \<^verbatim>\<open>HTMLParser\<close>,
  \<^verbatim>\<open>SimpleTestExecutor\<close>) are parameters of the handlers: a call of one of them
  either raises (\<open>Inl\<close>) or returns (\<open>Inr\<close>).
\<close>

text \<open>
  Exceptions that are instances of \<^verbatim>\<open>Exception\<close>. \<open>Exception m\<close> is any
  such exception whose \<^verbatim>\<open>str\<close> is \<open>m\<close>;
  \<open>KeyError k\<close> is raised by \<^verbatim>\<open>d[k]\<close> on a missing key; \<open>HTTPException\<close>
  carries \<^verbatim>\<open>status_code\<close> and \<^verbatim>\<open>detail\<close>.
\<close>

datatype py_exn = Exception string | KeyError string | HTTPException nat string

text \<open>
  \<^verbatim>\<open>str(e)\<close>. For a \<open>KeyError\<close> it is the \<^verbatim>\<open>repr\<close> of the key (the keys
  used here are plain identifiers, quoted with single quotes). The rendering of an
  \<open>HTTPException\<close> belongs to the web framework and is the parameter \<open>hstr\<close>.
\<close>

fun str_exn :: "(nat \<Rightarrow> string \<Rightarrow> string) \<Rightarrow> py_exn \<Rightarrow> string" where
  "str_exn hstr (Exception m) = m"
| "str_exn hstr (KeyError k) = [CHR 0x27] @ k @ [CHR 0x27]"
| "str_exn hstr (HTTPException code detail) = hstr code detail"

text \<open>Values found in the dictionaries of classified elements: \<^verbatim>\<open>None\<close> or a string.\<close>

datatype atom = PNone | PStr string

text \<open>Truth value of an atom, as in \<^verbatim>\<open>x if v else y\<close>.\<close>

fun truthy :: "atom \<Rightarrow> bool" where
  "truthy PNone = False"
| "truthy (PStr s) = (s \<noteq> [])"

text \<open>What an f-string writes for \<^verbatim>\<open>{v}\<close>.\<close>

fun format_atom :: "atom \<Rightarrow> string" where
  "format_atom PNone = ''None''"
| "format_atom (PStr s) = s"

text \<open>\<^verbatim>\<open>d.get(k)\<close> and \<^verbatim>\<open>d.get(k, default)\<close> on a dictionary of atoms.\<close>

definition dict_get :: "(string \<rightharpoonup> atom) \<Rightarrow> string \<Rightarrow> atom" where
  "dict_get d k = (case d k of None \<Rightarrow> PNone | Some v \<Rightarrow> v)"

definition dict_get_default :: "(string \<rightharpoonup> 'v) \<Rightarrow> string \<Rightarrow> 'v \<Rightarrow> 'v" where
  "dict_get_default d k dflt = (case d k of None \<Rightarrow> dflt | Some v \<Rightarrow> v)"

text \<open>Decimal rendering of a natural number, as \<^verbatim>\<open>str(n)\<close> and \<^verbatim>\<open>f"{n}"\<close> give it.\<close>

definition digit_char :: "nat \<Rightarrow> char" where
  "digit_char d = char_of (48 + d)"

fun str_nat :: "nat \<Rightarrow> string" where
  "str_nat n = (if n < 10 then [digit_char n] else str_nat (n div 10) @ [digit_char (n mod 10)])"

declare str_nat.simps [simp del]

text \<open>
  \<^verbatim>\<open>XPathRequest\<close> (declared in \<^verbatim>\<open>models/request_models.py\<close>): the four fields
  the handlers read.
\<close>

record XPathRequest =
  html_content :: string
  target_description :: string
  element_type :: "string option"
  additional_context :: "string option"

section \<open>/generate-test-scenarios and /analyze-html\<close>

text \<open>
  A classified element is a dictionary; the analysis that
  \<^verbatim>\<open>HTMLParser.analyze_html_structure\<close> returns is a dictionary from category names
  to lists of elements.
\<close>

type_synonym element = "string \<rightharpoonup> atom"
type_synonym analysis = "string \<rightharpoonup> element list"

record scenario =
  scenario_id :: string
  name :: string
  description :: string
  steps :: "string list"
  expected_result :: string
  priority :: string

text \<open>
  The dictionary built in the loop body for one element. \<open>n\<close> is
  \<^verbatim>\<open>len(scenarios)+1\<close> and \<open>tag\<close> is \<^verbatim>\<open>element['tag']\<close>, which the caller has read.
\<close>

definition make_scenario :: "nat \<Rightarrow> element \<Rightarrow> atom \<Rightarrow> scenario" where
  "make_scenario n element tag =
     \<lparr> scenario_id = ''scenario_'' @ str_nat n,
       name = ''Test '' @ format_atom (dict_get_default element ''text'' tag) @ '' functionality'',
       description = ''Verify '' @ format_atom (dict_get_default element ''text'' tag) @ '' works correctly'',
       steps =
         [ ''Navigate to the page'',
           ''Locate '' @ format_atom (dict_get_default element ''text'' tag) @ '' element'',
           ''Interact with '' @ format_atom (dict_get_default element ''text'' tag),
           ''Verify expected behavior'' ],
       expected_result = format_atom (dict_get_default element ''text'' tag) @ '' should work as expected'',
       priority = (if truthy (dict_get element ''id'') then ''high'' else ''medium'') \<rparr>"

text \<open>
  The \<^verbatim>\<open>for element in ...\<close> loop, with the list \<open>scenarios\<close> built so far.
  \<^verbatim>\<open>element['tag']\<close> raises \<open>KeyError\<close> when the element has no tag.
\<close>

fun scenario_loop :: "element list \<Rightarrow> scenario list \<Rightarrow> py_exn + scenario list" where
  "scenario_loop [] scenarios = Inr scenarios"
| "scenario_loop (element # rest) scenarios =
     (case element ''tag'' of
        None \<Rightarrow> Inl (KeyError ''tag'')
      | Some tag \<Rightarrow>
          if tag \<in> set [PStr ''button'', PStr ''input'', PStr ''a'']
          then scenario_loop rest (scenarios @ [make_scenario (length scenarios + 1) element tag])
          else scenario_loop rest scenarios)"

record scenarios_response =
  scenarios_success :: bool
  scenarios :: "scenario list"
  total_scenarios :: nat

text \<open>The body of the \<^verbatim>\<open>try\<close> block of \<^verbatim>\<open>generate_test_scenarios\<close>.\<close>

definition generate_test_scenarios_body ::
  "(string \<Rightarrow> py_exn + analysis) \<Rightarrow> XPathRequest \<Rightarrow> py_exn + scenarios_response" where
  "generate_test_scenarios_body analyze_html_structure request =
     (case analyze_html_structure (html_content request) of
        Inl e \<Rightarrow> Inl e
      | Inr analysis \<Rightarrow>
          (case scenario_loop (dict_get_default analysis ''interactive_elements'' []) [] of
             Inl e \<Rightarrow> Inl e
           | Inr scs \<Rightarrow>
               Inr \<lparr> scenarios_success = True, scenarios = scs, total_scenarios = length scs \<rparr>))"

text \<open>The handler: \<^verbatim>\<open>except Exception as e\<close> turns every exception into a 500.\<close>

definition generate_test_scenarios ::
  "(nat \<Rightarrow> string \<Rightarrow> string) \<Rightarrow> (string \<Rightarrow> py_exn + analysis) \<Rightarrow> XPathRequest
     \<Rightarrow> py_exn + scenarios_response" where
  "generate_test_scenarios hstr analyze_html_structure request =
     (case generate_test_scenarios_body analyze_html_structure request of
        Inl e \<Rightarrow> Inl (HTTPException 500 (''Test scenario generation error: '' @ str_exn hstr e))
      | Inr response \<Rightarrow> Inr response)"

record analysis_response =
  analysis_success :: bool
  analysis :: analysis

definition analyze_html ::
  "(nat \<Rightarrow> string \<Rightarrow> string) \<Rightarrow> (string \<Rightarrow> py_exn + analysis) \<Rightarrow> XPathRequest
     \<Rightarrow> py_exn + analysis_response" where
  "analyze_html hstr analyze_html_structure request =
     (case analyze_html_structure (html_content request) of
        Inl e \<Rightarrow> Inl (HTTPException 500 (''HTML analysis error: '' @ str_exn hstr e))
      | Inr a \<Rightarrow> Inr \<lparr> analysis_success = True, analysis = a \<rparr>)"

text \<open>
  Modelled from the spec: \<^verbatim>\<open>HTMLParser.analyze_html_structure\<close>
  (\<^verbatim>\<open>utils/html_parser.py\<close>) is not among the sources. The specification says of it
  that an input "not interpretable as HTML at all (e.g., empty/binary content)" is a
  ParseFailure that is "reported to the caller as a structured failure", and that every
  other input is classified best-effort. The handlers have one channel for a failure of
  the parser, the exception, so the ParseFailure is modelled as a raise. Which inputs are
  interpretable (\<open>interpretable\<close>) and how they are classified (\<open>classify\<close>) are left
  open.
\<close>

definition analyze_html_structure_spec ::
  "(string \<Rightarrow> bool) \<Rightarrow> (string \<Rightarrow> analysis) \<Rightarrow> string \<Rightarrow> py_exn + analysis" where
  "analyze_html_structure_spec interpretable classify html =
     (if interpretable html then Inr (classify html) else Inl (Exception ''ParseFailure''))"

section \<open>/generate-xpath\<close>

text \<open>
  The dictionary that \<^verbatim>\<open>SimpleXPathGenerator.generate_xpath\<close> and
  \<^verbatim>\<open>XPathAgent.generate_xpath\<close> return: each field is \<open>None\<close> when the key is
  missing. Confidence scores are only copied by the handler; their type is \<open>'c\<close>.
\<close>

record 'c locator_result =
  r_xpath_locators :: "string list option"
  r_confidence_scores :: "'c list option"
  r_alternative_locators :: "string list option"
  r_reasoning :: "string option"
  r_success :: "bool option"

record 'c XPathResponse =
  xpath_locators :: "string list"
  confidence_scores :: "'c list"
  alternative_locators :: "string list"
  reasoning :: string
  success :: bool

text \<open>
  \<^verbatim>\<open>XPathResponse(...)\<close> of the deterministic path (lines 190-196):
  \<^verbatim>\<open>result["xpath_locators"]\<close> and \<^verbatim>\<open>result["confidence_scores"]\<close> raise
  \<open>KeyError\<close> on a missing key, in this order; the other three keys have defaults.
\<close>

definition build_response :: "'c locator_result \<Rightarrow> py_exn + 'c XPathResponse" where
  "build_response result =
     (case r_xpath_locators result of
        None \<Rightarrow> Inl (KeyError ''xpath_locators'')
      | Some xl \<Rightarrow>
          (case r_confidence_scores result of
             None \<Rightarrow> Inl (KeyError ''confidence_scores'')
           | Some cs \<Rightarrow>
               Inr \<lparr> xpath_locators = xl,
                     confidence_scores = cs,
                     alternative_locators = (case r_alternative_locators result of None \<Rightarrow> [] | Some al \<Rightarrow> al),
                     reasoning = (case r_reasoning result of None \<Rightarrow> [] | Some t \<Rightarrow> t),
                     success = (case r_success result of None \<Rightarrow> True | Some b \<Rightarrow> b) \<rparr>))"

text \<open>\<^verbatim>\<open>XPathResponse(...)\<close> of the agent path (lines 211-217): \<^verbatim>\<open>success=True\<close>.\<close>

definition build_agent_response :: "'c locator_result \<Rightarrow> py_exn + 'c XPathResponse" where
  "build_agent_response result =
     (case r_xpath_locators result of
        None \<Rightarrow> Inl (KeyError ''xpath_locators'')
      | Some xl \<Rightarrow>
          (case r_confidence_scores result of
             None \<Rightarrow> Inl (KeyError ''confidence_scores'')
           | Some cs \<Rightarrow>
               Inr \<lparr> xpath_locators = xl,
                     confidence_scores = cs,
                     alternative_locators = (case r_alternative_locators result of None \<Rightarrow> [] | Some al \<Rightarrow> al),
                     reasoning = (case r_reasoning result of None \<Rightarrow> [] | Some t \<Rightarrow> t),
                     success = True \<rparr>))"

text \<open>
  What a call inside a \<^verbatim>\<open>try\<close> block of \<^verbatim>\<open>generate_xpath\<close> can raise:
  \<open>Exc e\<close> is an instance of \<^verbatim>\<open>Exception\<close>, which \<^verbatim>\<open>except Exception\<close>
  catches; \<open>BaseExc m\<close> is any other \<^verbatim>\<open>BaseException\<close> (\<^verbatim>\<open>SystemExit\<close>,
  \<^verbatim>\<open>KeyboardInterrupt\<close>, \<^verbatim>\<open>asyncio.CancelledError\<close>), which it does not
  catch and which leaves the handler as it is.
\<close>

datatype py_raise = Exc py_exn | BaseExc string

type_synonym 'c generator = "string \<Rightarrow> string \<Rightarrow> string option \<Rightarrow> py_raise + 'c locator_result"
type_synonym 'c agent = "string \<Rightarrow> string \<Rightarrow> string option \<Rightarrow> string option \<Rightarrow> py_raise + 'c locator_result"

text \<open>
  The body of the \<^verbatim>\<open>try\<close> block (lines 181-196). The import of
  \<^verbatim>\<open>simple_main\<close>, the construction of the generator and its call are one outcome
  of \<open>simple_generator\<close>: all three are inside the block.
\<close>

definition deterministic_stage :: "'c generator \<Rightarrow> XPathRequest \<Rightarrow> py_raise + 'c XPathResponse" where
  "deterministic_stage simple_generator request =
     (case simple_generator (html_content request) (target_description request) (element_type request) of
        Inl e \<Rightarrow> Inl e
      | Inr result \<Rightarrow>
          (case build_response result of
             Inl e \<Rightarrow> Inl (Exc e)
           | Inr response \<Rightarrow> Inr response))"

text \<open>
  The call \<^verbatim>\<open>await xpath_agent.generate_xpath(...)\<close> (lines 204-209) as an effect:
  it applies the agent to the four fields of the request and adds these arguments to the
  list of calls the agent has received.
\<close>

type_synonym agent_call = "string \<times> string \<times> string option \<times> string option"

definition call_agent ::
  "'c agent \<Rightarrow> XPathRequest \<Rightarrow> agent_call list
     \<Rightarrow> (py_raise + 'c locator_result) \<times> agent_call list" where
  "call_agent agent request calls =
     (agent (html_content request) (target_description request) (element_type request)
            (additional_context request),
      calls @ [(html_content request, target_description request, element_type request,
                additional_context request)])"

text \<open>
  The body of the inner \<^verbatim>\<open>try\<close> block (lines 201-217). \<open>parse_html\<close> stands for
  \<^verbatim>\<open>HTMLParser().parse_html\<close>, whose value the handler does not use.
\<close>

definition agent_stage ::
  "(string \<Rightarrow> py_raise + 'p) \<Rightarrow> 'c agent \<Rightarrow> XPathRequest \<Rightarrow> agent_call list
     \<Rightarrow> (py_raise + 'c XPathResponse) \<times> agent_call list" where
  "agent_stage parse_html agent request calls =
     (case parse_html (html_content request) of
        Inl e \<Rightarrow> (Inl e, calls)
      | Inr parsed_html \<Rightarrow>
          (case call_agent agent request calls of
             (Inl e, calls') \<Rightarrow> (Inl e, calls')
           | (Inr result, calls') \<Rightarrow>
               (case build_agent_response result of
                  Inl e \<Rightarrow> (Inl (Exc e), calls')
                | Inr response \<Rightarrow> (Inr response, calls'))))"

text \<open>
  The handler. \<open>xpath_agent\<close> is \<open>None\<close> when the global is \<^verbatim>\<open>None\<close>. The first
  component of the result is what the handler returns or raises, the second the calls
  that the agent has received. Both \<^verbatim>\<open>except Exception\<close> clauses (lines 198 and
  218) let a \<open>BaseExc\<close> pass.
\<close>

definition generate_xpath_run ::
  "(nat \<Rightarrow> string \<Rightarrow> string) \<Rightarrow> 'c generator \<Rightarrow> (string \<Rightarrow> py_raise + 'p) \<Rightarrow> 'c agent option
     \<Rightarrow> XPathRequest \<Rightarrow> (py_raise + 'c XPathResponse) \<times> agent_call list" where
  "generate_xpath_run hstr simple_generator parse_html xpath_agent request =
     (case deterministic_stage simple_generator request of
        Inr response \<Rightarrow> (Inr response, [])
      | Inl (BaseExc m) \<Rightarrow> (Inl (BaseExc m), [])
      | Inl (Exc e) \<Rightarrow>
          (case xpath_agent of
             None \<Rightarrow>
               (Inl (Exc (HTTPException 500 (''XPath generation error: '' @ str_exn hstr e))), [])
           | Some agent \<Rightarrow>
               (case agent_stage parse_html agent request [] of
                  (Inr response, calls) \<Rightarrow> (Inr response, calls)
                | (Inl (BaseExc m), calls) \<Rightarrow> (Inl (BaseExc m), calls)
                | (Inl (Exc ai_error), calls) \<Rightarrow>
                    (Inl (Exc (HTTPException 500 (''Agent error: '' @ str_exn hstr ai_error))),
                     calls))))"

definition generate_xpath ::
  "(nat \<Rightarrow> string \<Rightarrow> string) \<Rightarrow> 'c generator \<Rightarrow> (string \<Rightarrow> py_raise + 'p) \<Rightarrow> 'c agent option
     \<Rightarrow> XPathRequest \<Rightarrow> py_raise + 'c XPathResponse" where
  "generate_xpath hstr simple_generator parse_html xpath_agent request =
     fst (generate_xpath_run hstr simple_generator parse_html xpath_agent request)"

definition agent_calls ::
  "(nat \<Rightarrow> string \<Rightarrow> string) \<Rightarrow> 'c generator \<Rightarrow> (string \<Rightarrow> py_raise + 'p) \<Rightarrow> 'c agent option
     \<Rightarrow> XPathRequest \<Rightarrow> agent_call list" where
  "agent_calls hstr simple_generator parse_html xpath_agent request =
     snd (generate_xpath_run hstr simple_generator parse_html xpath_agent request)"

text \<open>The agent was invoked: it has received a call.\<close>

definition agent_invoked ::
  "(nat \<Rightarrow> string \<Rightarrow> string) \<Rightarrow> 'c generator \<Rightarrow> (string \<Rightarrow> py_raise + 'p) \<Rightarrow> 'c agent option
     \<Rightarrow> XPathRequest \<Rightarrow> bool" where
  "agent_invoked hstr simple_generator parse_html xpath_agent request =
     (agent_calls hstr simple_generator parse_html xpath_agent request \<noteq> [])"

text \<open>
  What the handler answers once the agent has returned or raised (lines 211-219): the
  response built from the agent's result, or the wrapped exception.
\<close>

definition agent_answer ::
  "(nat \<Rightarrow> string \<Rightarrow> string) \<Rightarrow> py_raise + 'c locator_result \<Rightarrow> py_raise + 'c XPathResponse" where
  "agent_answer hstr outcome =
     (case outcome of
        Inl (BaseExc m) \<Rightarrow> Inl (BaseExc m)
      | Inl (Exc e) \<Rightarrow> Inl (Exc (HTTPException 500 (''Agent error: '' @ str_exn hstr e)))
      | Inr result \<Rightarrow>
          (case build_agent_response result of
             Inl e \<Rightarrow> Inl (Exc (HTTPException 500 (''Agent error: '' @ str_exn hstr e)))
           | Inr response \<Rightarrow> Inr response))"

section \<open>/execute-tests\<close>

text \<open>
  The request is a JSON object. Numbers are kept as integers: the handler only tests a
  value for truth.
\<close>

datatype json = JNull | JBool bool | JNum int | JStr string | JList "json list" | JDict "(string \<times> json) list"

fun json_truthy :: "json \<Rightarrow> bool" where
  "json_truthy JNull = False"
| "json_truthy (JBool b) = b"
| "json_truthy (JNum n) = (n \<noteq> 0)"
| "json_truthy (JStr s) = (s \<noteq> [])"
| "json_truthy (JList xs) = (xs \<noteq> [])"
| "json_truthy (JDict kvs) = (kvs \<noteq> [])"

text \<open>
  The body of the \<^verbatim>\<open>try\<close> block. \<open>executor\<close> is \<open>Inl\<close> when the import of
  \<^verbatim>\<open>agents.simple_test_executor\<close> raises; otherwise it is the function that
  constructs the executor and runs \<^verbatim>\<open>execute_test_suite\<close>.
\<close>

definition execute_tests_body ::
  "(py_exn + (json \<Rightarrow> py_exn + 'r)) \<Rightarrow> (string \<rightharpoonup> json) \<Rightarrow> py_exn + 'r" where
  "execute_tests_body executor request =
     (case executor of
        Inl e \<Rightarrow> Inl e
      | Inr execute_test_suite \<Rightarrow>
          (let test_cases = dict_get_default request ''test_cases'' (JList [])
           in if \<not> json_truthy test_cases
              then Inl (HTTPException 400 ''test_cases required'')
              else execute_test_suite test_cases))"

definition execute_tests ::
  "(nat \<Rightarrow> string \<Rightarrow> string) \<Rightarrow> (py_exn + (json \<Rightarrow> py_exn + 'r)) \<Rightarrow> (string \<rightharpoonup> json) \<Rightarrow> py_exn + 'r" where
  "execute_tests hstr executor request =
     (case execute_tests_body executor request of
        Inl e \<Rightarrow> Inl (HTTPException 500 (''Test execution error: '' @ str_exn hstr e))
      | Inr result \<Rightarrow> Inr result)"

text \<open>The status code of what a handler raises, if it raises an \<open>HTTPException\<close>.\<close>

fun raised_status :: "py_exn + 'a \<Rightarrow> nat option" where
  "raised_status (Inl (HTTPException code detail)) = Some code"
| "raised_status _ = None"

section \<open>Notions used in the statements\<close>

definition interactive_elements :: "analysis \<Rightarrow> element list" where
  "interactive_elements a = (case a ''interactive_elements'' of None \<Rightarrow> [] | Some es \<Rightarrow> es)"

text \<open>The element's tag is one of button, input, a.\<close>

definition qualifies :: "element \<Rightarrow> bool" where
  "qualifies e = (e ''tag'' = Some (PStr ''button'') \<or> e ''tag'' = Some (PStr ''input'')
                   \<or> e ''tag'' = Some (PStr ''a''))"

text \<open>The element has an \<open>id\<close> that is a non-empty string.\<close>

definition has_nonempty_id :: "element \<Rightarrow> bool" where
  "has_nonempty_id e = (case e ''id'' of Some (PStr s) \<Rightarrow> s \<noteq> [] | _ \<Rightarrow> False)"

text \<open>
  The text that the code embeds for an element with a tag: the formatted value of the
  key \<open>text\<close> when the key is present, the formatted tag otherwise.
\<close>

definition embedded_label :: "element \<Rightarrow> string" where
  "embedded_label e =
     (case e ''text'' of
        Some v \<Rightarrow> format_atom v
      | None \<Rightarrow> (case e ''tag'' of Some t \<Rightarrow> format_atom t | None \<Rightarrow> []))"

text \<open>The fixed four-step template around a label.\<close>

definition four_steps :: "string \<Rightarrow> string list" where
  "four_steps label =
     [ ''Navigate to the page'', ''Locate '' @ label @ '' element'',
       ''Interact with '' @ label, ''Verify expected behavior'' ]"

text \<open>The tag of an element that has one.\<close>

definition tag_of :: "element \<Rightarrow> atom" where
  "tag_of e = (case e ''tag'' of Some t \<Rightarrow> t | None \<Rightarrow> PNone)"

text \<open>The number a string of decimal digits denotes: the inverse of \<open>str_nat\<close>.\<close>

definition digits_value :: "string \<Rightarrow> nat" where
  "digits_value s = foldl (\<lambda>a c. 10 * a + (of_char c - 48)) 0 s"

text \<open>
  The result carries the two keys that the handler reads with \<^verbatim>\<open>result[...]\<close>:
  the locators and the confidence scores of a LocatorResult.
\<close>

definition well_formed_result :: "'c locator_result \<Rightarrow> bool" where
  "well_formed_result r = (r_xpath_locators r \<noteq> None \<and> r_confidence_scores r \<noteq> None)"

section \<open>Example inputs\<close>

definition ex_button :: element where
  "ex_button = [''tag'' \<mapsto> PStr ''button'', ''text'' \<mapsto> PStr ''Submit'', ''id'' \<mapsto> PStr ''submit-btn'']"

definition ex_select :: element where
  "ex_select = [''tag'' \<mapsto> PStr ''select'', ''id'' \<mapsto> PStr ''country'']"

definition ex_link :: element where
  "ex_link = [''tag'' \<mapsto> PStr ''a'', ''id'' \<mapsto> PStr []]"

definition ex_empty_button :: element where
  "ex_empty_button = [''tag'' \<mapsto> PStr ''button'', ''text'' \<mapsto> PStr []]"

definition ex_analysis :: analysis where
  "ex_analysis = [''interactive_elements'' \<mapsto> [ex_button, ex_select, ex_link]]"

definition ex_request :: XPathRequest where
  "ex_request = \<lparr> html_content = ''<form/>'', target_description = ''Submit'',
                   element_type = None, additional_context = None \<rparr>"

definition ex_empty_request :: XPathRequest where
  "ex_empty_request = \<lparr> html_content = [], target_description = ''Submit'',
                         element_type = None, additional_context = None \<rparr>"

text \<open>
  A result with no candidate, a result with one, and a result of the agent that says
  \<open>success = False\<close>. Confidence scores are written in hundredths.
\<close>

definition ex_no_match :: "nat locator_result" where
  "ex_no_match = \<lparr> r_xpath_locators = Some [], r_confidence_scores = Some [],
                    r_alternative_locators = None, r_reasoning = Some ''No strategy matched'',
                    r_success = Some False \<rparr>"

definition ex_found :: "nat locator_result" where
  "ex_found = \<lparr> r_xpath_locators = Some [''//button[1]''], r_confidence_scores = Some [30],
                 r_alternative_locators = Some [], r_reasoning = None,
                 r_success = None \<rparr>"

definition ex_agent_result :: "nat locator_result" where
  "ex_agent_result = \<lparr> r_xpath_locators = Some [], r_confidence_scores = Some [],
                        r_alternative_locators = None, r_reasoning = None,
                        r_success = Some False \<rparr>"

definition ex_agent :: "nat agent" where
  "ex_agent html target etype ctx = Inr ex_agent_result"

definition ex_hstr :: "nat \<Rightarrow> string \<Rightarrow> string" where
  "ex_hstr code detail = str_nat code @ '': '' @ detail"

definition ex_gen_no_match :: "nat generator" where
  "ex_gen_no_match html target etype = Inr ex_no_match"

definition ex_gen_found :: "nat generator" where
  "ex_gen_found html target etype = Inr ex_found"

definition ex_gen_raises :: "nat generator" where
  "ex_gen_raises html target etype = Inl (Exc (Exception ''No module named simple_main''))"

definition ex_parse_html :: "string \<Rightarrow> py_raise + unit" where
  "ex_parse_html html = Inr ()"

text \<open>
  A result that says \<open>success = False\<close> and lacks the locators and the scores, one
  that says \<open>success = False\<close> and carries a locator, and a generator that raises
  \<^verbatim>\<open>SystemExit\<close>.
\<close>

definition ex_no_keys :: "nat locator_result" where
  "ex_no_keys = \<lparr> r_xpath_locators = None, r_confidence_scores = None,
                   r_alternative_locators = None, r_reasoning = Some ''No strategy matched'',
                   r_success = Some False \<rparr>"

definition ex_false_with_locator :: "nat locator_result" where
  "ex_false_with_locator = \<lparr> r_xpath_locators = Some [''//button[1]''],
                              r_confidence_scores = Some [30],
                              r_alternative_locators = None, r_reasoning = None,
                              r_success = Some False \<rparr>"

definition ex_gen_no_keys :: "nat generator" where
  "ex_gen_no_keys html target etype = Inr ex_no_keys"

definition ex_gen_false_with_locator :: "nat generator" where
  "ex_gen_false_with_locator html target etype = Inr ex_false_with_locator"

definition ex_gen_exit :: "nat generator" where
  "ex_gen_exit html target etype = Inl (BaseExc ''SystemExit'')"

section \<open>The scenario loop\<close>

lemma qualifies_iff:
  "e ''tag'' = Some t \<Longrightarrow> qualifies e = (t \<in> set [PStr ''button'', PStr ''input'', PStr ''a''])"
  by (auto simp: qualifies_def)

text \<open>
  When every element has a tag the loop ends normally, and its result is the list it
  started with followed by one scenario for each qualifying element, numbered from the
  length of that list.
\<close>

lemma scenario_loop_char:
  "\<forall>e \<in> set es. e ''tag'' \<noteq> None \<Longrightarrow>
   scenario_loop es acc =
     Inr (acc @ map (\<lambda>(k, e). make_scenario (Suc k) e (tag_of e))
                  (enumerate (length acc) (filter qualifies es)))"
proof (induction es arbitrary: acc)
  case Nil
  then show ?case by simp
next
  case (Cons e es)
  then obtain t where t: "e ''tag'' = Some t" by auto
  from Cons.prems have rest: "\<forall>e \<in> set es. e ''tag'' \<noteq> None" by simp
  show ?case
  proof (cases "qualifies e")
    case True
    with t have "t \<in> set [PStr ''button'', PStr ''input'', PStr ''a'']"
      by (simp add: qualifies_iff)
    then show ?thesis
      using t True Cons.IH[OF rest, of "acc @ [make_scenario (length acc + 1) e t]"]
      by (simp add: tag_of_def)
  next
    case False
    with t have "t \<notin> set [PStr ''button'', PStr ''input'', PStr ''a'']"
      by (simp add: qualifies_iff)
    then show ?thesis using t False Cons.IH[OF rest, of acc] by simp
  qed
qed

lemma handler_scenarios:
  assumes "parser (html_content request) = Inr a"
      and "\<forall>e \<in> set (interactive_elements a). e ''tag'' \<noteq> None"
  shows "generate_test_scenarios hstr parser request =
           Inr \<lparr> scenarios_success = True,
                 scenarios = map (\<lambda>(k, e). make_scenario (Suc k) e (tag_of e))
                               (enumerate 0 (filter qualifies (interactive_elements a))),
                 total_scenarios = length (filter qualifies (interactive_elements a)) \<rparr>"
proof -
  have "dict_get_default a ''interactive_elements'' [] = interactive_elements a"
    by (simp add: dict_get_default_def interactive_elements_def)
  then show ?thesis
    using assms scenario_loop_char[of "interactive_elements a" "[]"]
    by (simp add: generate_test_scenarios_def generate_test_scenarios_body_def)
qed

lemma priority_make:
  "priority (make_scenario n e t) = (if has_nonempty_id e then ''high'' else ''medium'')"
  by (auto simp: make_scenario_def has_nonempty_id_def dict_get_def
           split: option.splits atom.splits)

lemma steps_make:
  "e ''tag'' = Some t \<Longrightarrow> steps (make_scenario n e t) = four_steps (embedded_label e)"
  by (auto simp: make_scenario_def four_steps_def embedded_label_def dict_get_default_def
           split: option.splits)

lemma scenario_loop_tags:
  "scenario_loop es acc = Inr scs \<Longrightarrow> \<forall>e \<in> set es. e ''tag'' \<noteq> None"
  by (induction es arbitrary: acc) (auto split: option.splits if_splits)

lemma handler_returns_tags:
  assumes "parser (html_content request) = Inr a"
      and "generate_test_scenarios hstr parser request = Inr resp"
  shows "\<forall>e \<in> set (interactive_elements a). e ''tag'' \<noteq> None"
proof -
  have "dict_get_default a ''interactive_elements'' [] = interactive_elements a"
    by (simp add: dict_get_default_def interactive_elements_def)
  then obtain scs where "scenario_loop (interactive_elements a) [] = Inr scs"
    using assms
    by (auto simp: generate_test_scenarios_def generate_test_scenarios_body_def split: sum.splits)
  then show ?thesis by (rule scenario_loop_tags)
qed

text \<open>
  The handler answers with a response exactly when the parser returns and every
  interactive element has a tag; otherwise it raises a 500.
\<close>

lemma generate_test_scenarios_returns:
  assumes "parser (html_content request) = Inr a"
  shows "(\<exists>resp. generate_test_scenarios hstr parser request = Inr resp)
           = (\<forall>e \<in> set (interactive_elements a). e ''tag'' \<noteq> None)"
  using assms handler_scenarios[of parser request a hstr]
        handler_returns_tags[of parser request a hstr]
  by blast

lemma handler_response:
  assumes "parser (html_content request) = Inr a"
      and "generate_test_scenarios hstr parser request = Inr resp"
  shows "resp = \<lparr> scenarios_success = True,
                 scenarios = map (\<lambda>(k, e). make_scenario (Suc k) e (tag_of e))
                               (enumerate 0 (filter qualifies (interactive_elements a))),
                 total_scenarios = length (filter qualifies (interactive_elements a)) \<rparr>"
  using assms handler_scenarios[of parser request a hstr] handler_returns_tags[OF assms]
  by simp

lemma ex_run:
  "generate_test_scenarios ex_hstr (\<lambda>h. Inr ex_analysis) ex_request =
     Inr \<lparr> scenarios_success = True,
           scenarios = [make_scenario 1 ex_button (PStr ''button''),
                        make_scenario 2 ex_link (PStr ''a'')],
           total_scenarios = 2 \<rparr>"
  by (simp add: generate_test_scenarios_def generate_test_scenarios_body_def dict_get_default_def
        ex_analysis_def ex_button_def ex_select_def ex_link_def numeral_2_eq_2)

lemma ex_qualifying:
  "filter qualifies (interactive_elements ex_analysis) = [ex_button, ex_link]"
  by (simp add: interactive_elements_def ex_analysis_def qualifies_def
        ex_button_def ex_select_def ex_link_def)

section \<open>Decimal rendering is injective\<close>

lemma str_nat_small: "n < 10 \<Longrightarrow> str_nat n = [digit_char n]"
  by (subst str_nat.simps) simp

lemma of_char_digit: "d < 10 \<Longrightarrow> of_char (digit_char d) = (48 + d :: nat)"
  by (simp add: digit_char_def)

lemma digits_value_snoc: "digits_value (s @ [c]) = 10 * digits_value s + (of_char c - 48)"
  by (simp add: digits_value_def)

lemma digits_value_str_nat: "digits_value (str_nat n) = n"
proof (induction n rule: str_nat.induct)
  case (1 n)
  show ?case
  proof (cases "n < 10")
    case True
    then show ?thesis by (subst str_nat.simps) (simp add: digits_value_def of_char_digit)
  next
    case False
    have "digits_value (str_nat n)
            = 10 * digits_value (str_nat (n div 10)) + (of_char (digit_char (n mod 10)) - 48)"
      using False by (subst str_nat.simps) (simp add: digits_value_snoc)
    also have "\<dots> = 10 * (n div 10) + n mod 10"
      using 1[OF False] by (simp add: of_char_digit)
    finally show ?thesis by simp
  qed
qed

lemma str_nat_inj: "str_nat m = str_nat n \<Longrightarrow> m = n"
  by (metis digits_value_str_nat)

lemma distinct_ids:
  "distinct (map scenario_id (map (\<lambda>(k, e). make_scenario (Suc k) e (tag_of e)) (enumerate 0 qs)))"
proof -
  have "map scenario_id (map (\<lambda>(k, e). make_scenario (Suc k) e (tag_of e)) (enumerate 0 qs))
        = map (\<lambda>k. ''scenario_'' @ str_nat (Suc k)) [0..<length qs]"
    by (rule nth_equalityI) (simp_all add: nth_enumerate_eq make_scenario_def)
  moreover have "inj_on (\<lambda>k. ''scenario_'' @ str_nat (Suc k)) (set [0..<length qs])"
    by (rule inj_onI) (auto dest: str_nat_inj)
  ultimately show ?thesis by (simp add: distinct_map)
qed

lemma str_nat_1: "str_nat (Suc 0) = ''1''"
  by code_simp

lemma str_nat_2: "str_nat (Suc (Suc 0)) = ''2''"
  by code_simp

section \<open>Claims about scenario generation\<close>

text \<open>
  C4. Whenever scenario generation answers with scenarios, their number (and the
  \<open>total_scenarios\<close> it reports) is the number of interactive elements whose tag is
  button, input or a, and the priority of the k-th scenario is high if and only if the
  k-th such element has a non-empty id, and medium otherwise.
\<close>

theorem scenario_count_and_priority:
  assumes "parser (html_content request) = Inr a"
      and "generate_test_scenarios hstr parser request = Inr resp"
  shows "length (scenarios resp) = length (filter qualifies (interactive_elements a))
       \<and> total_scenarios resp = length (filter qualifies (interactive_elements a))
       \<and> (\<forall>k < length (scenarios resp).
             (priority (scenarios resp ! k) = ''high'')
                = has_nonempty_id (filter qualifies (interactive_elements a) ! k)
           \<and> (priority (scenarios resp ! k) = ''medium'')
                = (\<not> has_nonempty_id (filter qualifies (interactive_elements a) ! k)))"
  unfolding handler_response[OF assms]
  by (simp add: nth_enumerate_eq priority_make)

theorem scenario_count_and_priority_witness:
  "\<exists>resp. generate_test_scenarios ex_hstr (\<lambda>h. Inr ex_analysis) ex_request = Inr resp
     \<and> length (scenarios resp) = 2 \<and> total_scenarios resp = 2
     \<and> priority (scenarios resp ! 0) = ''high'' \<and> priority (scenarios resp ! 1) = ''medium''"
proof -
  have ids: "has_nonempty_id ex_button" "\<not> has_nonempty_id ex_link"
    by (simp_all add: has_nonempty_id_def ex_button_def ex_link_def)
  show ?thesis
    using scenario_count_and_priority[OF refl ex_run] ids
    by (simp add: ex_run ex_qualifying All_less_Suc numeral_2_eq_2)
qed

text \<open>
  C5. The claim fails on an element whose text is present and empty: the key
  \<open>text\<close> exists, so \<^verbatim>\<open>element.get('text', element['tag'])\<close> yields the empty string
  and the tag name appears nowhere in the scenario.
\<close>

theorem empty_text_not_replaced_by_tag:
  "generate_test_scenarios hstr (\<lambda>h. Inr [''interactive_elements'' \<mapsto> [ex_empty_button]]) request =
     Inr \<lparr> scenarios_success = True,
           scenarios =
             [\<lparr> scenario_id = ''scenario_1'',
                name = ''Test  functionality'',
                description = ''Verify  works correctly'',
                steps = [''Navigate to the page'', ''Locate  element'', ''Interact with '',
                         ''Verify expected behavior''],
                expected_result = '' should work as expected'',
                priority = ''medium'' \<rparr>],
           total_scenarios = 1 \<rparr>"
  by (simp add: generate_test_scenarios_def generate_test_scenarios_body_def dict_get_default_def
        dict_get_def make_scenario_def ex_empty_button_def str_nat_1)

text \<open>
  C6. Whenever scenario generation answers with scenarios, the k-th of them (counting
  from 1) has the identifier \<open>scenario_\<close> followed by the decimal numeral of k, and no
  two scenarios share an identifier.
\<close>

theorem scenario_ids_sequential:
  assumes "parser (html_content request) = Inr a"
      and "generate_test_scenarios hstr parser request = Inr resp"
  shows "(\<forall>k < length (scenarios resp).
             scenario_id (scenarios resp ! k) = ''scenario_'' @ str_nat (k + 1))
       \<and> distinct (map scenario_id (scenarios resp))"
  unfolding handler_response[OF assms]
  using distinct_ids[of "filter qualifies (interactive_elements a)"]
  by (simp add: nth_enumerate_eq make_scenario_def)

theorem scenario_ids_sequential_witness:
  "\<exists>resp. generate_test_scenarios ex_hstr (\<lambda>h. Inr ex_analysis) ex_request = Inr resp
     \<and> map scenario_id (scenarios resp) = [''scenario_1'', ''scenario_2'']
     \<and> distinct (map scenario_id (scenarios resp))"
  using scenario_ids_sequential[OF refl ex_run]
  by (simp add: ex_run All_less_Suc numeral_2_eq_2 str_nat_1 str_nat_2 make_scenario_def)

text \<open>
  C7. Whenever scenario generation answers with scenarios, the steps of each are the
  four-step template in order: navigate, locate, interact, verify, with the label of the
  scenario's source element in the locate and interact steps.
\<close>

theorem scenario_steps_template:
  assumes "parser (html_content request) = Inr a"
      and "generate_test_scenarios hstr parser request = Inr resp"
  shows "\<forall>k < length (scenarios resp).
           steps (scenarios resp ! k)
             = four_steps (embedded_label (filter qualifies (interactive_elements a) ! k))"
proof -
  let ?qs = "filter qualifies (interactive_elements a)"
  have "steps (make_scenario (Suc k) (?qs ! k) (tag_of (?qs ! k)))
          = four_steps (embedded_label (?qs ! k))"
    if "k < length ?qs" for k
  proof -
    from that have "?qs ! k \<in> set ?qs" by (rule nth_mem)
    then have "qualifies (?qs ! k)" by simp
    then obtain t where "(?qs ! k) ''tag'' = Some t" by (auto simp: qualifies_def)
    then show ?thesis by (simp add: steps_make tag_of_def)
  qed
  then show ?thesis
    unfolding handler_response[OF assms] by (simp add: nth_enumerate_eq)
qed

theorem scenario_steps_template_witness:
  "\<exists>resp. generate_test_scenarios ex_hstr (\<lambda>h. Inr ex_analysis) ex_request = Inr resp
     \<and> steps (scenarios resp ! 0)
         = [''Navigate to the page'', ''Locate Submit element'', ''Interact with Submit'',
            ''Verify expected behavior'']
     \<and> steps (scenarios resp ! 1)
         = [''Navigate to the page'', ''Locate a element'', ''Interact with a'',
            ''Verify expected behavior'']"
proof -
  have labels: "embedded_label ex_button = ''Submit''" "embedded_label ex_link = ''a''"
    by (simp_all add: embedded_label_def ex_button_def ex_link_def)
  show ?thesis
    using scenario_steps_template[OF refl ex_run] labels
    by (simp add: ex_run ex_qualifying All_less_Suc numeral_2_eq_2 four_steps_def)
qed

section \<open>Claims about /generate-xpath\<close>

lemma build_agent_response_success:
  "build_agent_response r = Inr resp \<Longrightarrow> success resp = True"
  by (auto simp: build_agent_response_def split: option.splits)

text \<open>
  The deterministic stage produces a response exactly when the generator returns a
  result that carries both keys the handler indexes.
\<close>

lemma deterministic_stage_returns:
  "(\<exists>resp. deterministic_stage gen request = Inr resp)
     = (\<exists>r. gen (html_content request) (target_description request) (element_type request) = Inr r
            \<and> well_formed_result r)"
  by (auto simp: deterministic_stage_def build_response_def well_formed_result_def
           split: sum.splits option.splits)

text \<open>The run of the handler, branch by branch.\<close>

lemma run_returns:
  "deterministic_stage gen request = Inr resp \<Longrightarrow>
   generate_xpath_run hstr gen parse agent request = (Inr resp, [])"
  by (simp add: generate_xpath_run_def)

lemma run_uncaught:
  "deterministic_stage gen request = Inl (BaseExc m) \<Longrightarrow>
   generate_xpath_run hstr gen parse agent request = (Inl (BaseExc m), [])"
  by (simp add: generate_xpath_run_def)

lemma run_no_agent:
  "deterministic_stage gen request = Inl (Exc e) \<Longrightarrow>
   generate_xpath_run hstr gen parse None request
     = (Inl (Exc (HTTPException 500 (''XPath generation error: '' @ str_exn hstr e))), [])"
  by (simp add: generate_xpath_run_def)

lemma run_parse_raises:
  "deterministic_stage gen request = Inl (Exc e) \<Longrightarrow> parse (html_content request) = Inl x \<Longrightarrow>
   snd (generate_xpath_run hstr gen parse (Some ag) request) = []"
  by (cases x) (simp_all add: generate_xpath_run_def agent_stage_def)

lemma run_agent_called:
  "deterministic_stage gen request = Inl (Exc e) \<Longrightarrow> parse (html_content request) = Inr p \<Longrightarrow>
   generate_xpath_run hstr gen parse (Some ag) request
     = (agent_answer hstr (ag (html_content request) (target_description request)
                              (element_type request) (additional_context request)),
        [(html_content request, target_description request, element_type request,
          additional_context request)])"
  by (auto simp: generate_xpath_run_def agent_stage_def call_agent_def agent_answer_def
           split: sum.splits py_raise.splits)

text \<open>
  C1. As stated the claim fails: a result of the deterministic generator with
  \<open>success = False\<close> is returned as the response and the agent receives no call, even
  when an agent is present.
\<close>

theorem agent_not_invoked_on_success_false:
  "ex_gen_no_match (html_content ex_request) (target_description ex_request) (element_type ex_request)
      = Inr ex_no_match
   \<and> r_success ex_no_match = Some False
   \<and> \<not> agent_invoked ex_hstr ex_gen_no_match ex_parse_html (Some ex_agent) ex_request"
  by (simp add: agent_invoked_def agent_calls_def generate_xpath_run_def deterministic_stage_def
        build_response_def ex_gen_no_match_def ex_no_match_def)

text \<open>
  C1, amended. The agent is called exactly when the deterministic stage raises an
  exception that \<^verbatim>\<open>except Exception\<close> catches (the generator raises an instance of
  \<^verbatim>\<open>Exception\<close>, or its result lacks one of the two keys the handler indexes), an
  agent is present and \<^verbatim>\<open>HTMLParser().parse_html\<close> returns. It is then called once,
  with the four fields of the request, and the handler answers with what the agent's
  outcome gives. Whenever the deterministic stage produces a response, with
  \<open>success\<close> true or false, that response is what the handler returns; an exception
  of the deterministic stage that is not an instance of \<^verbatim>\<open>Exception\<close> leaves the
  handler and the agent is not called.
\<close>

theorem agent_invoked_iff:
  "agent_invoked hstr gen parse agent request
     = ((\<exists>e. deterministic_stage gen request = Inl (Exc e)) \<and> agent \<noteq> None
          \<and> (\<exists>p. parse (html_content request) = Inr p))
   \<and> (\<forall>ag. agent = Some ag \<and> agent_invoked hstr gen parse agent request \<longrightarrow>
         agent_calls hstr gen parse agent request
           = [(html_content request, target_description request, element_type request,
               additional_context request)]
       \<and> generate_xpath hstr gen parse agent request
           = agent_answer hstr (ag (html_content request) (target_description request)
                                   (element_type request) (additional_context request)))
   \<and> (\<forall>resp. deterministic_stage gen request = Inr resp \<longrightarrow>
         generate_xpath hstr gen parse agent request = Inr resp)
   \<and> (\<forall>m. deterministic_stage gen request = Inl (BaseExc m) \<longrightarrow>
         generate_xpath hstr gen parse agent request = Inl (BaseExc m))"
proof -
  have iff: "agent_invoked hstr gen parse agent request
     = ((\<exists>e. deterministic_stage gen request = Inl (Exc e)) \<and> agent \<noteq> None
          \<and> (\<exists>p. parse (html_content request) = Inr p))"
  proof (cases "deterministic_stage gen request")
    case (Inr resp)
    then show ?thesis by (simp add: agent_invoked_def agent_calls_def run_returns)
  next
    case (Inl x)
    show ?thesis
    proof (cases x)
      case (BaseExc m)
      with Inl show ?thesis by (simp add: agent_invoked_def agent_calls_def run_uncaught)
    next
      case (Exc e)
      with Inl have det: "deterministic_stage gen request = Inl (Exc e)" by simp
      show ?thesis
      proof (cases agent)
        case None
        with det show ?thesis by (simp add: agent_invoked_def agent_calls_def run_no_agent)
      next
        case (Some ag)
        show ?thesis
        proof (cases "parse (html_content request)")
          case (Inl y)
          with det Some show ?thesis
            by (simp add: agent_invoked_def agent_calls_def run_parse_raises)
        next
          case (Inr p)
          with det Some show ?thesis
            by (simp add: agent_invoked_def agent_calls_def run_agent_called)
        qed
      qed
    qed
  qed
  have called: "agent_calls hstr gen parse agent request
           = [(html_content request, target_description request, element_type request,
               additional_context request)]
       \<and> generate_xpath hstr gen parse agent request
           = agent_answer hstr (ag (html_content request) (target_description request)
                                   (element_type request) (additional_context request))"
    if "agent = Some ag" and "agent_invoked hstr gen parse agent request" for ag
  proof -
    from that(2) iff obtain e p where "deterministic_stage gen request = Inl (Exc e)"
      and "parse (html_content request) = Inr p" by auto
    then show ?thesis
      using that(1) by (simp add: agent_calls_def generate_xpath_def run_agent_called)
  qed
  have ret: "generate_xpath hstr gen parse agent request = Inr resp"
    if "deterministic_stage gen request = Inr resp" for resp
    using that by (simp add: generate_xpath_def run_returns)
  have unc: "generate_xpath hstr gen parse agent request = Inl (BaseExc m)"
    if "deterministic_stage gen request = Inl (BaseExc m)" for m
    using that by (simp add: generate_xpath_def run_uncaught)
  from iff called ret unc show ?thesis by blast
qed

theorem agent_invoked_iff_witness:
  "agent_invoked ex_hstr ex_gen_raises ex_parse_html (Some ex_agent) ex_request
   \<and> agent_calls ex_hstr ex_gen_raises ex_parse_html (Some ex_agent) ex_request
       = [(''<form/>'', ''Submit'', None, None)]
   \<and> generate_xpath ex_hstr ex_gen_raises ex_parse_html (Some ex_agent) ex_request
       = agent_answer ex_hstr (Inr ex_agent_result)
   \<and> \<not> agent_invoked ex_hstr ex_gen_raises ex_parse_html None ex_request
   \<and> \<not> agent_invoked ex_hstr ex_gen_found ex_parse_html (Some ex_agent) ex_request
   \<and> generate_xpath ex_hstr ex_gen_found ex_parse_html (Some ex_agent) ex_request
       = Inr \<lparr> xpath_locators = [''//button[1]''], confidence_scores = [30],
               alternative_locators = [], reasoning = [], success = True \<rparr>
   \<and> \<not> agent_invoked ex_hstr ex_gen_exit ex_parse_html (Some ex_agent) ex_request
   \<and> generate_xpath ex_hstr ex_gen_exit ex_parse_html (Some ex_agent) ex_request
       = Inl (BaseExc ''SystemExit'')"
proof -
  have raises: "deterministic_stage ex_gen_raises ex_request
                  = Inl (Exc (Exception ''No module named simple_main''))"
    by (simp add: deterministic_stage_def ex_gen_raises_def)
  have found: "deterministic_stage ex_gen_found ex_request
       = Inr \<lparr> xpath_locators = [''//button[1]''], confidence_scores = [30],
               alternative_locators = [], reasoning = [], success = True \<rparr>"
    by (simp add: deterministic_stage_def ex_gen_found_def ex_found_def build_response_def)
  have exit: "deterministic_stage ex_gen_exit ex_request = Inl (BaseExc ''SystemExit'')"
    by (simp add: deterministic_stage_def ex_gen_exit_def)
  have parse: "ex_parse_html (html_content ex_request) = Inr ()"
    by (simp add: ex_parse_html_def)
  have fields: "html_content ex_request = ''<form/>''" "target_description ex_request = ''Submit''"
    "element_type ex_request = None" "additional_context ex_request = None"
    by (simp_all add: ex_request_def)
  note A = agent_invoked_iff[of ex_hstr ex_gen_raises ex_parse_html "Some ex_agent" ex_request]
  note B = agent_invoked_iff[of ex_hstr ex_gen_raises ex_parse_html None ex_request]
  note C = agent_invoked_iff[of ex_hstr ex_gen_found ex_parse_html "Some ex_agent" ex_request]
  note D = agent_invoked_iff[of ex_hstr ex_gen_exit ex_parse_html "Some ex_agent" ex_request]
  have a1: "agent_invoked ex_hstr ex_gen_raises ex_parse_html (Some ex_agent) ex_request"
    using A raises parse by simp
  have a2: "agent_calls ex_hstr ex_gen_raises ex_parse_html (Some ex_agent) ex_request
       = [(''<form/>'', ''Submit'', None, None)]"
    and a3: "generate_xpath ex_hstr ex_gen_raises ex_parse_html (Some ex_agent) ex_request
       = agent_answer ex_hstr (Inr ex_agent_result)"
    using A a1 fields by (simp_all add: ex_agent_def)
  have b: "\<not> agent_invoked ex_hstr ex_gen_raises ex_parse_html None ex_request"
    using B by simp
  have c1: "\<not> agent_invoked ex_hstr ex_gen_found ex_parse_html (Some ex_agent) ex_request"
    using C found by simp
  have c2: "generate_xpath ex_hstr ex_gen_found ex_parse_html (Some ex_agent) ex_request
       = Inr \<lparr> xpath_locators = [''//button[1]''], confidence_scores = [30],
               alternative_locators = [], reasoning = [], success = True \<rparr>"
    using C found by simp
  have d1: "\<not> agent_invoked ex_hstr ex_gen_exit ex_parse_html (Some ex_agent) ex_request"
    using D exit by simp
  have d2: "generate_xpath ex_hstr ex_gen_exit ex_parse_html (Some ex_agent) ex_request
       = Inl (BaseExc ''SystemExit'')"
    using D exit by simp
  from a1 a2 a3 b c1 c2 d1 d2 show ?thesis by blast
qed

text \<open>
  C2. As stated the claim fails. A result with \<open>success = False\<close> that lacks the key
  \<open>xpath_locators\<close> makes the handler raise a 500 when no agent is present, and return
  the agent's response with \<open>success = True\<close> when one is. A result with
  \<open>success = False\<close> that carries a locator is returned with that locator, not with an
  empty one.
\<close>

theorem success_false_not_always_returned:
  "ex_gen_no_keys (html_content ex_request) (target_description ex_request) (element_type ex_request)
      = Inr ex_no_keys
   \<and> r_success ex_no_keys = Some False
   \<and> generate_xpath ex_hstr ex_gen_no_keys ex_parse_html None ex_request
       = Inl (Exc (HTTPException 500
                (''XPath generation error: '' @ [CHR 0x27] @ ''xpath_locators'' @ [CHR 0x27])))
   \<and> generate_xpath ex_hstr ex_gen_no_keys ex_parse_html (Some ex_agent) ex_request
       = Inr \<lparr> xpath_locators = [], confidence_scores = [], alternative_locators = [],
               reasoning = [], success = True \<rparr>
   \<and> r_success ex_false_with_locator = Some False
   \<and> generate_xpath ex_hstr ex_gen_false_with_locator ex_parse_html None ex_request
       = Inr \<lparr> xpath_locators = [''//button[1]''], confidence_scores = [30],
               alternative_locators = [], reasoning = [], success = False \<rparr>"
  by (simp add: generate_xpath_def generate_xpath_run_def deterministic_stage_def
        build_response_def agent_stage_def call_agent_def build_agent_response_def
        ex_gen_no_keys_def ex_no_keys_def ex_gen_false_with_locator_def ex_false_with_locator_def
        ex_parse_html_def ex_agent_def ex_agent_result_def)

text \<open>
  C2, amended. When the deterministic generator returns a result with
  \<open>success = False\<close> that carries its locators and its confidence scores, the handler
  returns it as a normal response: the locators are those of the result (empty when the
  result's are empty), \<open>success\<close> is false, and nothing is raised, whatever the agent
  is.
\<close>

theorem no_match_returned_as_response:
  assumes "gen (html_content request) (target_description request) (element_type request) = Inr r"
      and "r_success r = Some False"
      and "r_xpath_locators r = Some xl"
      and "r_confidence_scores r = Some cs"
  shows "generate_xpath hstr gen parse agent request =
           Inr \<lparr> xpath_locators = xl, confidence_scores = cs,
                 alternative_locators = (case r_alternative_locators r of None \<Rightarrow> [] | Some al \<Rightarrow> al),
                 reasoning = (case r_reasoning r of None \<Rightarrow> [] | Some t \<Rightarrow> t),
                 success = False \<rparr>"
  using assms
  by (simp add: generate_xpath_def generate_xpath_run_def deterministic_stage_def build_response_def)

theorem no_match_returned_as_response_witness:
  "generate_xpath ex_hstr ex_gen_no_match ex_parse_html (Some ex_agent) ex_request =
     Inr \<lparr> xpath_locators = [], confidence_scores = [], alternative_locators = [],
           reasoning = ''No strategy matched'', success = False \<rparr>"
  using no_match_returned_as_response[of ex_gen_no_match ex_request ex_no_match "[]" "[]"
          ex_hstr ex_parse_html "Some ex_agent"]
  by (simp add: ex_gen_no_match_def ex_no_match_def)

text \<open>
  C8. A response that the handler returns after the deterministic stage raised comes
  from the agent path, and its \<open>success\<close> flag is \<open>True\<close> whatever the agent's
  result contains.
\<close>

theorem agent_response_success_true:
  assumes "deterministic_stage gen request = Inl e"
      and "generate_xpath hstr gen parse agent request = Inr resp"
  shows "success resp = True \<and> agent_invoked hstr gen parse agent request"
proof (cases e)
  case (BaseExc m)
  with assms show ?thesis by (simp add: generate_xpath_def run_uncaught)
next
  case (Exc x)
  with assms(1) have det: "deterministic_stage gen request = Inl (Exc x)" by simp
  show ?thesis
  proof (cases agent)
    case None
    with det assms(2) show ?thesis by (simp add: generate_xpath_def run_no_agent)
  next
    case (Some ag)
    show ?thesis
    proof (cases "parse (html_content request)")
      case (Inl y)
      with det Some assms(2) show ?thesis
        by (cases y) (simp_all add: generate_xpath_def generate_xpath_run_def agent_stage_def)
    next
      case (Inr p)
      with det Some assms(2) show ?thesis
        by (auto simp: generate_xpath_def agent_invoked_def agent_calls_def run_agent_called
              agent_answer_def dest: build_agent_response_success
              split: sum.splits py_raise.splits)
    qed
  qed
qed

theorem agent_response_success_true_witness:
  "r_success ex_agent_result = Some False
   \<and> generate_xpath ex_hstr ex_gen_raises ex_parse_html (Some ex_agent) ex_request
       = Inr \<lparr> xpath_locators = [], confidence_scores = [], alternative_locators = [],
               reasoning = [], success = True \<rparr>
   \<and> agent_invoked ex_hstr ex_gen_raises ex_parse_html (Some ex_agent) ex_request"
proof -
  have det: "deterministic_stage ex_gen_raises ex_request
               = Inl (Exc (Exception ''No module named simple_main''))"
    by (simp add: deterministic_stage_def ex_gen_raises_def)
  have run: "generate_xpath ex_hstr ex_gen_raises ex_parse_html (Some ex_agent) ex_request
       = Inr \<lparr> xpath_locators = [], confidence_scores = [], alternative_locators = [],
               reasoning = [], success = True \<rparr>"
    by (simp add: generate_xpath_def generate_xpath_run_def det ex_parse_html_def ex_agent_def
          ex_agent_result_def build_agent_response_def agent_stage_def call_agent_def)
  show ?thesis
    using agent_response_success_true[OF det run] run by (simp add: ex_agent_result_def)
qed

text \<open>
  C10. As stated the claim fails: the generator returns, without raising, a result that
  lacks the key \<open>xpath_locators\<close>; the handler then answers with the agent's response
  when an agent is present and raises a 500 when none is.
\<close>

theorem agent_matters_when_key_missing:
  "ex_gen_no_keys (html_content ex_request) (target_description ex_request) (element_type ex_request)
      = Inr ex_no_keys
   \<and> generate_xpath ex_hstr ex_gen_no_keys ex_parse_html (Some ex_agent) ex_request
       \<noteq> generate_xpath ex_hstr ex_gen_no_keys ex_parse_html None ex_request"
  by (simp add: generate_xpath_def generate_xpath_run_def deterministic_stage_def
        build_response_def agent_stage_def call_agent_def build_agent_response_def
        ex_gen_no_keys_def ex_no_keys_def ex_parse_html_def ex_agent_def ex_agent_result_def)

text \<open>
  C10, amended. When the deterministic generator returns a result that carries its
  locators and confidence scores, the handler's answer is the response built from that
  result, the same for any two values of \<open>xpath_agent\<close>, present or absent.
\<close>

theorem agent_noninterference:
  assumes "gen (html_content request) (target_description request) (element_type request) = Inr r"
      and "well_formed_result r"
  shows "generate_xpath hstr gen parse agent1 request = generate_xpath hstr gen parse agent2 request
       \<and> (\<exists>resp. build_response r = Inr resp
              \<and> generate_xpath hstr gen parse agent1 request = Inr resp)"
  using assms
  by (auto simp: generate_xpath_def generate_xpath_run_def deterministic_stage_def
        build_response_def well_formed_result_def)

theorem agent_noninterference_witness:
  "generate_xpath ex_hstr ex_gen_found ex_parse_html (Some ex_agent) ex_request
     = generate_xpath ex_hstr ex_gen_found ex_parse_html None ex_request
   \<and> generate_xpath ex_hstr ex_gen_found ex_parse_html (Some ex_agent) ex_request
       = Inr \<lparr> xpath_locators = [''//button[1]''], confidence_scores = [30],
               alternative_locators = [], reasoning = [], success = True \<rparr>"
proof -
  have gen: "ex_gen_found (html_content ex_request) (target_description ex_request)
               (element_type ex_request) = Inr ex_found"
    by (simp add: ex_gen_found_def)
  have wf: "well_formed_result ex_found"
    by (simp add: well_formed_result_def ex_found_def)
  have resp: "build_response ex_found
       = Inr \<lparr> xpath_locators = [''//button[1]''], confidence_scores = [30],
               alternative_locators = [], reasoning = [], success = True \<rparr>"
    by (simp add: build_response_def ex_found_def)
  show ?thesis
    using gen wf resp
      agent_noninterference[of ex_gen_found ex_request ex_found ex_hstr ex_parse_html
        "Some ex_agent" None]
    by auto
qed

section \<open>Claims about /execute-tests\<close>

text \<open>
  C9. When \<open>test_cases\<close> is missing or is the empty list, the endpoint raises an
  \<open>HTTPException\<close> with status 500: the \<open>HTTPException\<close> with status 400 raised
  in the body is caught by \<^verbatim>\<open>except Exception\<close> and wrapped.
\<close>

theorem execute_tests_missing_test_cases_500:
  assumes "request ''test_cases'' = None \<or> request ''test_cases'' = Some (JList [])"
  shows "raised_status (execute_tests hstr executor request) = Some 500
       \<and> (\<forall>run. executor = Inr run \<longrightarrow>
             execute_tests_body executor request = Inl (HTTPException 400 ''test_cases required'')
           \<and> execute_tests hstr executor request
               = Inl (HTTPException 500 (''Test execution error: '' @ hstr 400 ''test_cases required'')))"
  using assms
  by (auto simp: execute_tests_def execute_tests_body_def dict_get_default_def split: sum.splits)

theorem execute_tests_missing_test_cases_500_witness:
  "raised_status (execute_tests ex_hstr (Inr (\<lambda>tc. Inr tc)) Map.empty) = Some 500
   \<and> execute_tests ex_hstr (Inr (\<lambda>tc. Inr tc)) [''test_cases'' \<mapsto> JList []]
       = Inl (HTTPException 500 (''Test execution error: '' @ ex_hstr 400 ''test_cases required''))"
  using execute_tests_missing_test_cases_500[of Map.empty ex_hstr "Inr (\<lambda>tc. Inr tc)"]
        execute_tests_missing_test_cases_500[of "[''test_cases'' \<mapsto> JList []]" ex_hstr "Inr (\<lambda>tc. Inr tc)"]
  by simp

section \<open>Claims about parse failures\<close>

text \<open>
  C3. With the parser modelled from the specification, an input that is not
  interpretable as HTML makes both the analysis endpoint and the scenario endpoint raise
  an \<open>HTTPException\<close> with status 500; neither returns a response marked successful.
\<close>

theorem parse_failure_is_reported:
  assumes "\<not> interpretable (html_content request)"
  shows "raised_status (analyze_html hstr (analyze_html_structure_spec interpretable classify) request) = Some 500
       \<and> raised_status (generate_test_scenarios hstr (analyze_html_structure_spec interpretable classify) request) = Some 500"
  using assms
  by (simp add: analyze_html_def generate_test_scenarios_def generate_test_scenarios_body_def
        analyze_html_structure_spec_def)

theorem parse_failure_is_reported_witness:
  "raised_status (analyze_html ex_hstr (analyze_html_structure_spec (\<lambda>h. h \<noteq> []) (\<lambda>h. Map.empty)) ex_empty_request) = Some 500
   \<and> raised_status (generate_test_scenarios ex_hstr (analyze_html_structure_spec (\<lambda>h. h \<noteq> []) (\<lambda>h. Map.empty)) ex_empty_request) = Some 500"
  using parse_failure_is_reported[of "\<lambda>h. h \<noteq> []" ex_empty_request ex_hstr "\<lambda>h. Map.empty"]
  by (simp add: ex_empty_request_def)

end
